theory Spec2Isabelle
  imports Main "HOL-Library.Sublist"
begin

section \<open>JavaScript values\<close>

text \<open>
  ThemeEngine.js is dynamically typed: its checks are \<open>Array.isArray\<close>, \<open>typeof\<close>,
  strict equality and truthiness. The values it handles are therefore one datatype.
  An object is an association list of its own properties (the first binding of a key is
  the one read). \<open>JFun lib arg\<close> is an opaque function value that an imported library
  handed out: \<open>lib\<close> names the library and \<open>arg\<close> is the argument it was configured with.
\<close>

datatype jsval =
    JUndefined
  | JNull
  | JBool bool
  | JNum int
  | JStr string
  | JArr "jsval list"
  | JObj "(string \<times> jsval) list"
  | JFun string jsval

datatype error = TypeError string | Error string

fun typeof :: "jsval \<Rightarrow> string" where
  "typeof JUndefined = ''undefined''"
| "typeof JNull = ''object''"
| "typeof (JBool b) = ''boolean''"
| "typeof (JNum n) = ''number''"
| "typeof (JStr s) = ''string''"
| "typeof (JArr xs) = ''object''"
| "typeof (JObj kvs) = ''object''"
| "typeof (JFun lib arg) = ''function''"

fun isArray :: "jsval \<Rightarrow> bool" where
  "isArray (JArr xs) = True"
| "isArray v = False"

text \<open>Truthiness, as \<open>!v\<close> and \<open>a && b\<close> test it.\<close>

fun truthy :: "jsval \<Rightarrow> bool" where
  "truthy JUndefined = False"
| "truthy JNull = False"
| "truthy (JBool b) = b"
| "truthy (JNum n) = (n \<noteq> 0)"
| "truthy (JStr s) = (s \<noteq> [])"
| "truthy v = True"

text \<open>
  Reading the property \<open>k\<close> of a value that is neither \<open>undefined\<close> nor \<open>null\<close>. Only the
  names the source reads are looked up (\<open>files\<close>, \<open>map\<close>, \<open>processors\<close>, \<open>silent\<close>,
  \<open>debug\<close>, \<open>name\<close>, \<open>dirName\<close>, \<open>filePath\<close>, \<open>append\<close>, \<open>prepend\<close>, \<open>copy\<close>). An
  array answers \<open>map\<close> with the method of its prototype; no other of these names is
  found on a primitive or an array, so there the read gives \<open>undefined\<close>. The \<open>name\<close> of
  a function value is left out of the model.
\<close>

fun getProp :: "string \<Rightarrow> jsval \<Rightarrow> jsval" where
  "getProp k (JObj kvs) = (case map_of kvs k of Some v \<Rightarrow> v | None \<Rightarrow> JUndefined)"
| "getProp k (JArr xs) =
     (if k = ''map'' then JFun ''Array.prototype.map'' JUndefined else JUndefined)"
| "getProp k v = JUndefined"

text \<open>The entries a \<open>for ... of\<close> loop visits in an array.\<close>

fun elements :: "jsval \<Rightarrow> jsval list" where
  "elements (JArr xs) = xs"
| "elements v = []"

text \<open>A default in a parameter or in a destructuring pattern applies to \<open>undefined\<close> only.\<close>

definition dflt :: "jsval \<Rightarrow> jsval \<Rightarrow> jsval" where
  "dflt d v = (if v = JUndefined then d else v)"

definition nullish :: "jsval \<Rightarrow> bool" where
  "nullish v = (v = JUndefined \<or> v = JNull)"

text \<open>\<open>v.k\<close>: a TypeError on \<open>undefined\<close> and \<open>null\<close>.\<close>

definition member :: "jsval \<Rightarrow> string \<Rightarrow> error + jsval" where
  "member v k =
     (if nullish v then Inl (TypeError ''Cannot read properties of undefined or null'')
      else Inr (getProp k v))"

section \<open>The engine and the bus\<close>

text \<open>
  The PostCSS engine (\<open>this._postcss\<close>) and the eventbus (\<open>this._eventbus\<close>) are
  collaborators outside the repository. The model keeps what ThemeEngine does to them:
  the world is the chronological log of the calls they have received. A call on either
  is taken to return normally; what an awaited call resolves to is an input of the
  operation that awaits it (\<open>Inl\<close> for a rejection).
\<close>

datatype call =
    Create jsval
  | Append jsval
  | Prepend jsval
  | FinalizeAll jsval
  | TriggerAsync string jsval
  | Trigger string jsval

type_synonym world = "call list"

section \<open>createTheme\<close>

text \<open>
  The imported processors: \<open>cssnext(options)\<close>, \<open>combineDup\<close> and \<open>cssnano(options)\<close>.
\<close>

definition cssnext :: "jsval \<Rightarrow> jsval" where
  "cssnext options = JFun ''postcss-cssnext'' options"

definition combineDup :: jsval where
  "combineDup = JFun ''postcss-combine-duplicated-selectors'' JUndefined"

definition cssnano :: "jsval \<Rightarrow> jsval" where
  "cssnano options = JFun ''cssnano'' options"

text \<open>Lines 63 to 72: the processors built when none are supplied.\<close>

definition default_processors :: "jsval \<Rightarrow> jsval \<Rightarrow> jsval" where
  "default_processors mp debug =
     (let cssnextOptions = (if mp = JBool True then JObj [(''sourceMap'', JStr ''inline'')]
                            else JObj []);
          cssnanoOptions = JObj [(''autoprefixer'', JBool False)];
          processors = [JObj [(''instance'', cssnext cssnextOptions)]]
      in JArr (if \<not> truthy debug
               then processors @ [JObj [(''instance'', combineDup)]]
                               @ [JObj [(''instance'', cssnano cssnanoOptions)]]
               else processors))"

definition create_target :: "jsval \<Rightarrow> jsval \<Rightarrow> jsval \<Rightarrow> jsval \<Rightarrow> jsval" where
  "create_target nm mp processors silent =
     JObj [(''name'', nm), (''to'', nm), (''map'', mp), (''processors'', processors),
           (''silent'', silent)]"

text \<open>Lines 83 to 86: one \<open>create\<close> per entry of \<open>files\<close>.\<close>

fun create_each :: "jsval list \<Rightarrow> jsval \<Rightarrow> jsval \<Rightarrow> jsval \<Rightarrow> world \<Rightarrow> world" where
  "create_each [] mp processors silent w = w"
| "create_each (entry # files) mp processors silent w =
     create_each files mp processors silent (w @ [Create (create_target entry mp processors silent)])"

text \<open>
  \<open>createTheme(options)\<close>. The parameter pattern \<open>{ files = ..., ... } = {}\<close> takes \<open>{}\<close> for
  an \<open>undefined\<close> argument and cannot destructure \<open>null\<close>. The function has no \<open>await\<close>:
  it runs to its end, or to its \<open>throw\<close>, when called.
\<close>

definition createTheme :: "jsval \<Rightarrow> world \<Rightarrow> (error + unit) \<times> world" where
  "createTheme options w =
     (let opts = dflt (JObj []) options in
      if opts = JNull then (Inl (TypeError ''Cannot destructure null''), w)
      else
        let files = dflt (JStr ''styles.css'') (getProp ''files'' opts);
            mp = dflt (JBool True) (getProp ''map'' opts);
            processors = dflt JUndefined (getProp ''processors'' opts);
            silent = dflt (JBool False) (getProp ''silent'' opts);
            debug = dflt (JBool False) (getProp ''debug'' opts)
        in
        if \<not> isArray files \<and> typeof files \<noteq> ''string''
        then (Inl (TypeError '''files' is not a 'string' or 'array'.''), w)
        else
          let processors = (if typeof processors = ''undefined'' \<or> processors = JNull
                            then default_processors mp debug else processors)
          in
          if \<not> isArray processors
          then (Inl (TypeError '''processors' is not an 'array'.''), w)
          else if typeof files = ''string''
          then (Inr (), w @ [Create (create_target files mp processors silent)])
          else if isArray files
          then (Inr (), create_each (elements files) mp processors silent w)
          else (Inr (), w))"

text \<open>The spec's words for the \<open>files\<close> it accepts besides a string: a list of strings.\<close>

definition string_list :: "jsval \<Rightarrow> bool" where
  "string_list v = (isArray v \<and> list_all (\<lambda>x. typeof x = ''string'') (elements v))"

section \<open>Template substitution\<close>

text \<open>
  Modelled from the spec: the template-substitution function
  \<open>render(template, data) -> string\<close>, "used to resolve file-path placeholders". It is
  the default export of the es6-template package, which ThemeEngine.js imports as
  \<open>es6Template\<close> and which is not under src/. A placeholder is written as in an ES6 template
  literal, \<open>${key}\<close>. The spec fixes neither what a placeholder is replaced by nor what
  happens to a template that is no string, so both are parameters of the model.
\<close>

record template_lib =
  placeholder :: "(string \<times> jsval) list \<Rightarrow> string \<Rightarrow> string"
  not_a_string :: "jsval \<Rightarrow> (string \<times> jsval) list \<Rightarrow> error + jsval"

datatype scan = Text | Dollar | Key string

fun render :: "template_lib \<Rightarrow> (string \<times> jsval) list \<Rightarrow> scan \<Rightarrow> string \<Rightarrow> string" where
  "render T d Text [] = []"
| "render T d Text (c # cs) =
     (if c = CHR ''$'' then render T d Dollar cs else c # render T d Text cs)"
| "render T d Dollar [] = ''$''"
| "render T d Dollar (c # cs) =
     (if c = CHR ''{'' then render T d (Key []) cs
      else if c = CHR ''$'' then CHR ''$'' # render T d Dollar cs
      else CHR ''$'' # c # render T d Text cs)"
| "render T d (Key k) [] = ''${'' @ k"
| "render T d (Key k) (c # cs) =
     (if c = CHR ''}'' then placeholder T d k @ render T d Text cs
      else render T d (Key (k @ [c])) cs)"

definition es6Template :: "template_lib \<Rightarrow> jsval \<Rightarrow> (string \<times> jsval) list \<Rightarrow> error + jsval" where
  "es6Template T template d =
     (case template of
        JStr s \<Rightarrow> Inr (JStr (render T d Text s))
      | _ \<Rightarrow> not_a_string T template d)"

text \<open>A placeholder occurs in a string: \<open>${\<close>, and a \<open>}\<close> somewhere after it.\<close>

fun has_placeholder :: "string \<Rightarrow> bool" where
  "has_placeholder [] = False"
| "has_placeholder (c # cs) =
     ((c = CHR ''$'' \<and> (case cs of [] \<Rightarrow> False | b # rest \<Rightarrow> b = CHR ''{'' \<and> CHR ''}'' \<in> set rest))
      \<or> has_placeholder cs)"

section \<open>cssAdd\<close>

text \<open>
  The parameter pattern of \<open>cssAdd\<close>, lines 106 and 107:
  \<open>{ name = 'styles.css', dirName = void 0, filePath = void 0, silent = false, ...templateData } = {}\<close>.
  The rest element collects the own properties that the pattern does not name; a value
  that is no plain object is taken to have none.
\<close>

record request =
  rq_name :: jsval
  rq_dirName :: jsval
  rq_filePath :: jsval
  rq_silent :: jsval
  rq_templateData :: "(string \<times> jsval) list"

fun rest_properties :: "jsval \<Rightarrow> (string \<times> jsval) list" where
  "rest_properties (JObj kvs) =
     filter (\<lambda>(k, v). k \<notin> {''name'', ''dirName'', ''filePath'', ''silent''}) kvs"
| "rest_properties v = []"

definition destructure :: "jsval \<Rightarrow> error + request" where
  "destructure data =
     (let d = dflt (JObj []) data in
      if d = JNull then Inl (TypeError ''Cannot destructure null'')
      else Inr \<lparr> rq_name = dflt (JStr ''styles.css'') (getProp ''name'' d),
                 rq_dirName = dflt JUndefined (getProp ''dirName'' d),
                 rq_filePath = dflt JUndefined (getProp ''filePath'' d),
                 rq_silent = dflt (JBool False) (getProp ''silent'' d),
                 rq_templateData = rest_properties d \<rparr>)"

text \<open>\<open>action === 'append' ? this._postcss.append(v) : this._postcss.prepend(v)\<close>\<close>

definition engine_add :: "jsval \<Rightarrow> jsval \<Rightarrow> call" where
  "engine_add action v = (if action = JStr ''append'' then Append v else Prepend v)"

text \<open>
  \<open>cssAdd\<close> is an async function with one \<open>await\<close>, at line 118. Called, it runs up to
  that \<open>await\<close> (or to a \<open>throw\<close>, which rejects its promise) and hands control back;
  it goes on when the bus reply has settled. The two halves are two functions, and what
  the second half still reads of the first is the record \<open>suspended\<close>.
\<close>

record suspended =
  sp_action :: jsval
  sp_silent :: jsval

definition structural_fragment :: "request \<Rightarrow> jsval \<Rightarrow> jsval" where
  "structural_fragment r structuralFilePath =
     JObj [(''name'', rq_name r), (''dirName'', rq_dirName r),
           (''filePath'', structuralFilePath), (''silent'', rq_silent r)]"

definition theme_request :: "request \<Rightarrow> jsval \<Rightarrow> jsval" where
  "theme_request r themeFilePath =
     JObj [(''name'', rq_name r), (''filePath'', themeFilePath), (''silent'', rq_silent r)]"

text \<open>Lines 106 to 119.\<close>

definition cssAdd_begin ::
  "template_lib \<Rightarrow> jsval \<Rightarrow> jsval \<Rightarrow> world \<Rightarrow> (error + suspended) \<times> world" where
  "cssAdd_begin T action0 data w =
     (let action = dflt (JStr ''append'') action0 in
      case destructure data of
        Inl e \<Rightarrow> (Inl e, w)
      | Inr r \<Rightarrow>
          if typeof action \<noteq> ''string''
          then (Inl (TypeError '''action' is not a 'string'.''), w)
          else if action \<noteq> JStr ''append'' \<and> action \<noteq> JStr ''prepend''
          then (Inl (Error '''action' is not 'append' or 'prepend'.''), w)
          else
            (case es6Template T (rq_filePath r) [] of
               Inl e \<Rightarrow> (Inl e, w)
             | Inr structuralFilePath \<Rightarrow>
                 (case es6Template T (rq_filePath r) (rq_templateData r) of
                    Inl e \<Rightarrow> (Inl e, w)
                  | Inr themeFilePath \<Rightarrow>
                      (Inr \<lparr> sp_action = action, sp_silent = rq_silent r \<rparr>,
                       w @ [engine_add action (structural_fragment r structuralFilePath),
                            TriggerAsync ''typhonjs:theme:css:get''
                              (theme_request r themeFilePath)]))))"

text \<open>Lines 128 to 131 and lines 123 to 137.\<close>

fun add_inner :: "jsval \<Rightarrow> jsval list \<Rightarrow> world \<Rightarrow> world" where
  "add_inner action [] w = w"
| "add_inner action (entry2 # rest) w = add_inner action rest (w @ [engine_add action entry2])"

fun add_entries :: "jsval \<Rightarrow> jsval list \<Rightarrow> world \<Rightarrow> world" where
  "add_entries action [] w = w"
| "add_entries action (entry # rest) w =
     add_entries action rest
       (if isArray entry then add_inner action (elements entry) w
        else w @ [engine_add action entry])"

definition not_an_array_message :: "string \<Rightarrow> string" where
  "not_an_array_message themeCSSType =
     ''typhonjs-theme-engine - cssAdd error: 'themeCSS' is not an 'array'; found: ''
       @ [CHR 0x27] @ themeCSSType @ ''.''"

text \<open>Lines 121 to 151, given what the \<open>await\<close> of line 118 settled to.\<close>

definition cssAdd_resume :: "suspended \<Rightarrow> error + jsval \<Rightarrow> world \<Rightarrow> (error + unit) \<times> world" where
  "cssAdd_resume k reply w =
     (case reply of
        Inl e \<Rightarrow> (Inl e, w)
      | Inr themeCSS \<Rightarrow>
          if isArray themeCSS
          then (Inr (), add_entries (sp_action k) (elements themeCSS) w)
          else
            let themeCSSType = typeof themeCSS in
            if themeCSSType \<noteq> ''undefined''
            then (if \<not> truthy (sp_silent k)
                  then (Inr (), w @ [Trigger ''log:error''
                                       (JStr (not_an_array_message themeCSSType))])
                  else (Inr (), w))
            else (Inr (), w))"

text \<open>A call of \<open>cssAdd\<close> that is awaited to its end, with the reply the bus gives it.\<close>

definition cssAdd ::
  "template_lib \<Rightarrow> jsval \<Rightarrow> jsval \<Rightarrow> error + jsval \<Rightarrow> world \<Rightarrow> (error + unit) \<times> world" where
  "cssAdd T action data reply w =
     (case cssAdd_begin T action data w of
        (Inl e, w') \<Rightarrow> (Inl e, w')
      | (Inr k, w') \<Rightarrow> cssAdd_resume k reply w')"

definition cssAppend ::
  "template_lib \<Rightarrow> jsval \<Rightarrow> error + jsval \<Rightarrow> world \<Rightarrow> (error + unit) \<times> world" where
  "cssAppend T data reply w = cssAdd T (JStr ''append'') (dflt (JObj []) data) reply w"

definition cssPrepend ::
  "template_lib \<Rightarrow> jsval \<Rightarrow> error + jsval \<Rightarrow> world \<Rightarrow> (error + unit) \<times> world" where
  "cssPrepend T data reply w = cssAdd T (JStr ''prepend'') (dflt (JObj []) data) reply w"

text \<open>
  The spec's words for the reply of the content lookup: a list whose elements may
  themselves be lists, flattened by one level.
\<close>

definition flatten_one_level :: "jsval list \<Rightarrow> jsval list" where
  "flatten_one_level xs = concat (map (\<lambda>x. case x of JArr ys \<Rightarrow> ys | _ \<Rightarrow> [x]) xs)"

section \<open>cssAppendAll and cssPrependAll\<close>

text \<open>
  \<open>for (const entry of data)\<close> over a value that need not be an array: a string is
  iterated by character, anything else but an array is not iterable.
\<close>

definition iterate :: "jsval \<Rightarrow> error + jsval list" where
  "iterate v =
     (case v of
        JArr xs \<Rightarrow> Inr xs
      | JStr s \<Rightarrow> Inr (map (\<lambda>c. JStr [c]) s)
      | _ \<Rightarrow> Inl (TypeError ''data is not iterable''))"

text \<open>
  The promise of one \<open>cssAdd\<close> call of the batch: rejected, waiting at its \<open>await\<close>, or
  fulfilled.
\<close>

datatype slot = Rejected error | Suspended suspended | Fulfilled

text \<open>
  Lines 183 and 217: the loop calls \<open>cssAdd\<close> on each entry in turn and keeps the promise.
  No call is awaited there, so each runs its first half only, one after the other.
\<close>

fun begin_each :: "template_lib \<Rightarrow> jsval \<Rightarrow> jsval list \<Rightarrow> world \<Rightarrow> slot list \<times> world" where
  "begin_each T action [] w = ([], w)"
| "begin_each T action (entry # rest) w =
     (case cssAdd_begin T action entry w of
        (r, w') \<Rightarrow>
          (case begin_each T action rest w' of
             (promises, w'') \<Rightarrow>
               ((case r of Inl e \<Rightarrow> Rejected e | Inr k \<Rightarrow> Suspended k) # promises, w'')))"

text \<open>
  \<open>Promise.all(promises)\<close> when it is called: it rejects with the first promise that is
  rejected already, is fulfilled when there is nothing left to wait for, and is pending
  (\<open>None\<close>) otherwise.
\<close>

definition promise_all :: "slot list \<Rightarrow> (error + unit) option" where
  "promise_all promises =
     (case List.find (\<lambda>p. case p of Rejected e \<Rightarrow> True | _ \<Rightarrow> False) promises of
        Some (Rejected e) \<Rightarrow> Some (Inl e)
      | _ \<Rightarrow> if list_all (\<lambda>p. p = Fulfilled) promises then Some (Inr ()) else None)"

record batch =
  promises :: "slot list"
  settled :: "(error + unit) option"

definition add_all_begin :: "template_lib \<Rightarrow> jsval \<Rightarrow> jsval \<Rightarrow> world \<Rightarrow> batch \<times> world" where
  "add_all_begin T action data0 w =
     (let data = dflt (JArr []) data0 in
      case iterate data of
        Inl e \<Rightarrow> (\<lparr> promises = [], settled = Some (Inl e) \<rparr>, w)
      | Inr entries \<Rightarrow>
          (case begin_each T action entries w of
             (ps, w') \<Rightarrow> (\<lparr> promises = ps, settled = promise_all ps \<rparr>, w')))"

definition cssAppendAll :: "template_lib \<Rightarrow> jsval \<Rightarrow> world \<Rightarrow> batch \<times> world" where
  "cssAppendAll T data w = add_all_begin T (JStr ''append'') data w"

definition cssPrependAll :: "template_lib \<Rightarrow> jsval \<Rightarrow> world \<Rightarrow> batch \<times> world" where
  "cssPrependAll T data w = add_all_begin T (JStr ''prepend'') data w"

text \<open>
  Later, the bus replies settle in some order. The reply to the \<open>i\<close>-th call resumes that
  call if it is waiting; a batch that has settled stays as it is, and the calls still
  waiting go on all the same.
\<close>

definition deliver :: "nat \<Rightarrow> error + jsval \<Rightarrow> batch \<Rightarrow> world \<Rightarrow> batch \<times> world" where
  "deliver i reply b w =
     (if i < length (promises b)
      then (case promises b ! i of
              Suspended k \<Rightarrow>
                (case cssAdd_resume k reply w of
                   (r, w') \<Rightarrow>
                     (let ps = (promises b)[i := (case r of Inl e \<Rightarrow> Rejected e
                                                          | Inr u \<Rightarrow> Fulfilled)]
                      in (\<lparr> promises = ps,
                            settled = (case settled b of
                                         Some x \<Rightarrow> Some x
                                       | None \<Rightarrow> (case r of Inl e \<Rightarrow> Some (Inl e)
                                                          | Inr u \<Rightarrow> promise_all ps)) \<rparr>,
                          w')))
            | _ \<Rightarrow> (b, w))
      else (b, w))"

fun deliver_all :: "(nat \<times> (error + jsval)) list \<Rightarrow> batch \<Rightarrow> world \<Rightarrow> batch \<times> world" where
  "deliver_all [] b w = (b, w)"
| "deliver_all ((i, reply) # rest) b w =
     (case deliver i reply b w of (b', w') \<Rightarrow> deliver_all rest b' w')"

section \<open>finalizeTheme\<close>

fun append_each :: "jsval list \<Rightarrow> world \<Rightarrow> world" where
  "append_each [] w = w"
| "append_each (entry # rest) w = append_each rest (w @ [Append entry])"

fun prepend_each :: "jsval list \<Rightarrow> world \<Rightarrow> world" where
  "prepend_each [] w = w"
| "prepend_each (entry # rest) w = prepend_each rest (w @ [Prepend entry])"

text \<open>
  Lines 240 to 259 for one \<open>resource\<close> of the list, and the same statements at lines 264
  to 283 for a reply that is a single object. \<open>copyResources\<close> is the list built so far.
\<close>

definition forward_bundle ::
  "jsval \<Rightarrow> jsval list \<Rightarrow> world \<Rightarrow> (error + jsval list) \<times> world" where
  "forward_bundle resource copyResources w =
     (case member resource ''append'' of
        Inl e \<Rightarrow> (Inl e, w)
      | Inr a \<Rightarrow>
          let w1 = (if isArray a \<and> length (elements a) \<noteq> 0
                    then append_each (elements a) w else w)
          in
          (case member resource ''prepend'' of
             Inl e \<Rightarrow> (Inl e, w1)
           | Inr p \<Rightarrow>
               let w2 = (if isArray p \<and> length (elements p) \<noteq> 0
                         then prepend_each (elements p) w1 else w1)
               in
               (case member resource ''copy'' of
                  Inl e \<Rightarrow> (Inl e, w2)
                | Inr c \<Rightarrow>
                    (Inr (if isArray c \<and> length (elements c) \<noteq> 0
                          then copyResources @ elements c else copyResources),
                     w2))))"

text \<open>Lines 238 to 260.\<close>

fun forward_each :: "jsval list \<Rightarrow> jsval list \<Rightarrow> world \<Rightarrow> (error + jsval list) \<times> world" where
  "forward_each [] copyResources w = (Inr copyResources, w)"
| "forward_each (resource # rest) copyResources w =
     (case forward_bundle resource copyResources w of
        (Inl e, w') \<Rightarrow> (Inl e, w')
      | (Inr copyResources', w') \<Rightarrow> forward_each rest copyResources' w')"

text \<open>
  \<open>finalizeTheme(options)\<close>, with what its two \<open>await\<close>s settle to: \<open>themeResources\<close> for
  the bus round-trip of line 231 and \<open>css\<close> for the engine's \<open>finalizeAll\<close> of line 286.
\<close>

definition finalizeTheme ::
  "jsval \<Rightarrow> error + jsval \<Rightarrow> error + jsval \<Rightarrow> world \<Rightarrow> (error + jsval) \<times> world" where
  "finalizeTheme options themeResources0 css0 w =
     (let opts = dflt (JObj []) options in
      if opts = JNull then (Inl (TypeError ''Cannot destructure null''), w)
      else
        let silent = dflt (JBool False) (getProp ''silent'' opts);
            w0 = w @ [TriggerAsync ''typhonjs:theme:resources:get'' JUndefined]
        in
        (case themeResources0 of
           Inl e \<Rightarrow> (Inl e, w0)
         | Inr themeResources \<Rightarrow>
             (case (if isArray themeResources
                    then forward_each (elements themeResources) [] w0
                    else if typeof themeResources = ''object''
                    then forward_bundle themeResources [] w0
                    else (Inr [], w0)) of
                (Inl e, w1) \<Rightarrow> (Inl e, w1)
              | (Inr copyResources, w1) \<Rightarrow>
                  (let w2 = w1 @ [FinalizeAll (JObj [(''silent'', silent)])] in
                   case css0 of
                     Inl e \<Rightarrow> (Inl e, w2)
                   | Inr css \<Rightarrow>
                       (Inr (JObj [(''css'', css), (''copy'', JArr copyResources)]), w2)))))"

section \<open>Reading the log\<close>

text \<open>The entries the engine was asked to append, and to prepend, in the order of the calls.\<close>

fun appended :: "call list \<Rightarrow> jsval list" where
  "appended [] = []"
| "appended (Append v # cs) = v # appended cs"
| "appended (c # cs) = appended cs"

fun prepended :: "call list \<Rightarrow> jsval list" where
  "prepended [] = []"
| "prepended (Prepend v # cs) = v # prepended cs"
| "prepended (c # cs) = prepended cs"

text \<open>
  The spec's words for one resource bundle: every entry of its \<open>append\<close> list goes to the
  engine's append call in order, then every entry of its \<open>prepend\<close> list to the prepend
  call in order. (\<open>elements\<close> is empty for a field that is absent or no list.)
\<close>

definition bundle_calls :: "jsval \<Rightarrow> call list" where
  "bundle_calls b = map Append (elements (getProp ''append'' b))
                    @ map Prepend (elements (getProp ''prepend'' b))"

section \<open>A template library to evaluate with\<close>

text \<open>
  One instance of the template library, for evaluating the operations on concrete
  inputs: a placeholder bound to a string is replaced by it, any other placeholder is
  left as written, and a template that is no string is refused.
\<close>

definition sample_lib :: template_lib where
  "sample_lib =
     \<lparr> placeholder = (\<lambda>d k. case map_of d k of Some (JStr v) \<Rightarrow> v
                                              | _ \<Rightarrow> ''${'' @ k @ ''}''),
       not_a_string = (\<lambda>v d. Inl (TypeError ''template is not a string'')) \<rparr>"

text \<open>A fragment request with one substitution variable, and what its pattern binds.\<close>

definition sample_data :: jsval where
  "sample_data = JObj [(''dirName'', JStr ''/theme''), (''filePath'', JStr ''css/${scheme}.css''),
                       (''scheme'', JStr ''dark'')]"

definition sample_request :: request where
  "sample_request = \<lparr> rq_name = JStr ''styles.css'', rq_dirName = JStr ''/theme'',
                       rq_filePath = JStr ''css/${scheme}.css'', rq_silent = JBool False,
                       rq_templateData = [(''scheme'', JStr ''dark'')] \<rparr>"

section \<open>Rendering a path without placeholders\<close>

lemma render_key_open: "CHR ''}'' \<notin> set s \<Longrightarrow> render T d (Key k) s = ''${'' @ k @ s"
  by (induction s arbitrary: k) auto

lemma render_plain:
  "(\<not> has_placeholder s \<longrightarrow> render T d Text s = s) \<and>
   (\<not> has_placeholder (CHR ''$'' # s) \<longrightarrow> render T d Dollar s = CHR ''$'' # s)"
proof (induction s)
  case Nil
  show ?case by simp
next
  case (Cons c cs)
  show ?case
  proof (intro conjI impI)
    assume np: "\<not> has_placeholder (c # cs)"
    then have rest: "\<not> has_placeholder cs" by simp
    show "render T d Text (c # cs) = c # cs"
    proof (cases "c = CHR ''$''")
      case True
      with np Cons show ?thesis by simp
    next
      case False
      with rest Cons show ?thesis by simp
    qed
  next
    assume np: "\<not> has_placeholder (CHR ''$'' # c # cs)"
    then have rest: "\<not> has_placeholder (c # cs)" by simp
    show "render T d Dollar (c # cs) = CHR ''$'' # c # cs"
    proof (cases "c = CHR ''{''")
      case True
      with np have "CHR ''}'' \<notin> set cs" by simp
      with True show ?thesis by (simp add: render_key_open)
    next
      case False
      note no_brace = this
      show ?thesis
      proof (cases "c = CHR ''$''")
        case True
        with rest Cons show ?thesis by simp
      next
        case False
        with no_brace rest Cons show ?thesis by simp
      qed
    qed
  qed
qed

text \<open>
  C8: the structural rendering of \<open>cssAdd\<close>, \<open>es6Template(filePath)\<close> with no substitution
  variables, gives back a path string in which no placeholder occurs, whatever the
  library does with placeholders and with templates that are no strings.
\<close>

theorem structural_rendering_of_plain_path:
  "\<not> has_placeholder p \<Longrightarrow> es6Template T (JStr p) [] = Inr (JStr p)"
  by (simp add: es6Template_def render_plain)

theorem structural_rendering_of_plain_path_witness:
  "\<not> has_placeholder ''css/$main{.css'' \<and>
   es6Template sample_lib (JStr ''css/$main{.css'') [] = Inr (JStr ''css/$main{.css'')"
  using structural_rendering_of_plain_path [of "''css/$main{.css''" sample_lib]
  by simp

section \<open>createTheme: the default processors\<close>

lemma create_each_calls:
  "create_each fs mp ps sl w = w @ map (\<lambda>f. Create (create_target f mp ps sl)) fs"
  by (induction fs arbitrary: w) auto

lemma processors_of_target: "getProp ''processors'' (create_target f mp ps sl) = ps"
  by (simp add: create_target_def)

lemma createTheme_unset_calls:
  assumes unset: "getProp ''processors'' (dflt (JObj []) options) = JUndefined"
  shows "\<exists>fs. snd (createTheme options w) =
           w @ map (\<lambda>f. Create (create_target f
                  (dflt (JBool True) (getProp ''map'' (dflt (JObj []) options)))
                  (default_processors
                     (dflt (JBool True) (getProp ''map'' (dflt (JObj []) options)))
                     (dflt (JBool False) (getProp ''debug'' (dflt (JObj []) options))))
                  (dflt (JBool False) (getProp ''silent'' (dflt (JObj []) options))))) fs"
proof -
  let ?o = "dflt (JObj []) options"
  let ?mp = "dflt (JBool True) (getProp ''map'' ?o)"
  let ?dbg = "dflt (JBool False) (getProp ''debug'' ?o)"
  let ?sl = "dflt (JBool False) (getProp ''silent'' ?o)"
  let ?ps = "default_processors ?mp ?dbg"
  let ?files = "dflt (JStr ''styles.css'') (getProp ''files'' ?o)"
  show ?thesis
  proof (cases "snd (createTheme options w) = w")
    case True
    then have "snd (createTheme options w) =
        w @ map (\<lambda>f. Create (create_target f ?mp ?ps ?sl)) []"
      by simp
    then show ?thesis by blast
  next
    case changed: False
    show ?thesis
    proof (cases "typeof ?files = ''string''")
      case True
      with changed unset have "snd (createTheme options w) =
          w @ map (\<lambda>f. Create (create_target f ?mp ?ps ?sl)) [?files]"
        by (simp add: createTheme_def Let_def dflt_def split: if_splits)
      then show ?thesis by blast
    next
      case False
      with changed unset have "snd (createTheme options w) =
          w @ map (\<lambda>f. Create (create_target f ?mp ?ps ?sl)) (elements ?files)"
        by (simp add: createTheme_def Let_def dflt_def create_each_calls split: if_splits)
      then show ?thesis by blast
    qed
  qed
qed

text \<open>
  C1: when \<open>processors\<close> is unset, every \<open>create\<close> call that \<open>createTheme\<close> makes on the
  engine carries the default processors. With \<open>debug\<close> false (or unset, which defaults to
  false) they are three stages in this order: the cssnext transform, the combination of
  duplicated selectors, cssnano. With \<open>debug\<close> true the cssnext transform is the only
  stage. The transform is configured with inline source maps exactly when \<open>map\<close> is
  true.
\<close>

theorem createTheme_default_stages:
  assumes unset: "getProp ''processors'' (dflt (JObj []) options) = JUndefined"
    and new: "c \<in> set (drop (length w) (snd (createTheme options w)))"
    and copts: "copts = (if dflt (JBool True) (getProp ''map'' (dflt (JObj []) options)) = JBool True
                        then JObj [(''sourceMap'', JStr ''inline'')] else JObj [])"
  shows "\<exists>t. c = Create t \<and>
      (getProp ''debug'' (dflt (JObj []) options) \<in> {JUndefined, JBool False} \<longrightarrow>
         getProp ''processors'' t =
           JArr [JObj [(''instance'', cssnext copts)],
                 JObj [(''instance'', combineDup)],
                 JObj [(''instance'', cssnano (JObj [(''autoprefixer'', JBool False)]))]]) \<and>
      (getProp ''debug'' (dflt (JObj []) options) = JBool True \<longrightarrow>
         getProp ''processors'' t = JArr [JObj [(''instance'', cssnext copts)]])"
proof -
  let ?o = "dflt (JObj []) options"
  let ?mp = "dflt (JBool True) (getProp ''map'' ?o)"
  let ?dbg = "dflt (JBool False) (getProp ''debug'' ?o)"
  let ?sl = "dflt (JBool False) (getProp ''silent'' ?o)"
  let ?ps = "default_processors ?mp ?dbg"
  from createTheme_unset_calls [OF unset, of w] obtain fs where
    "snd (createTheme options w) = w @ map (\<lambda>f. Create (create_target f ?mp ?ps ?sl)) fs"
    by blast
  with new obtain f where c: "c = Create (create_target f ?mp ?ps ?sl)"
    by auto
  have three: "getProp ''debug'' ?o \<in> {JUndefined, JBool False} \<Longrightarrow> ?ps =
           JArr [JObj [(''instance'', cssnext copts)],
                 JObj [(''instance'', combineDup)],
                 JObj [(''instance'', cssnano (JObj [(''autoprefixer'', JBool False)]))]]"
    unfolding copts by (auto simp: default_processors_def dflt_def)
  have one: "getProp ''debug'' ?o = JBool True \<Longrightarrow>
           ?ps = JArr [JObj [(''instance'', cssnext copts)]]"
    unfolding copts by (simp add: default_processors_def dflt_def)
  from three one c show ?thesis
    by (metis processors_of_target)
qed

theorem createTheme_default_stages_witness:
  "getProp ''processors''
     (dflt (JObj []) (JObj [(''files'', JArr [JStr ''a.css'', JStr ''b.css''])])) = JUndefined \<and>
   Create (create_target (JStr ''b.css'') (JBool True)
             (JArr [JObj [(''instance'', cssnext (JObj [(''sourceMap'', JStr ''inline'')]))],
                    JObj [(''instance'', combineDup)],
                    JObj [(''instance'', cssnano (JObj [(''autoprefixer'', JBool False)]))]])
             (JBool False))
     \<in> set (drop (length [])
               (snd (createTheme (JObj [(''files'', JArr [JStr ''a.css'', JStr ''b.css''])]) []))) \<and>
   getProp ''processors''
     (dflt (JObj []) (JObj [(''debug'', JBool True), (''map'', JBool False)])) = JUndefined \<and>
   Create (create_target (JStr ''styles.css'') (JBool False)
             (JArr [JObj [(''instance'', cssnext (JObj []))]]) (JBool False))
     \<in> set (drop (length [])
               (snd (createTheme (JObj [(''debug'', JBool True), (''map'', JBool False)]) [])))"
  using createTheme_default_stages
          [of "JObj [(''files'', JArr [JStr ''a.css'', JStr ''b.css''])]"
              "Create (create_target (JStr ''b.css'') (JBool True)
                 (JArr [JObj [(''instance'', cssnext (JObj [(''sourceMap'', JStr ''inline'')]))],
                        JObj [(''instance'', combineDup)],
                        JObj [(''instance'', cssnano (JObj [(''autoprefixer'', JBool False)]))]])
                 (JBool False))"
              "[]" "JObj [(''sourceMap'', JStr ''inline'')]"]
        createTheme_default_stages
          [of "JObj [(''debug'', JBool True), (''map'', JBool False)]"
              "Create (create_target (JStr ''styles.css'') (JBool False)
                 (JArr [JObj [(''instance'', cssnext (JObj []))]]) (JBool False))"
              "[]" "JObj []"]
  by (simp add: createTheme_def dflt_def Let_def default_processors_def)

section \<open>createTheme: the check of files\<close>

text \<open>
  C6, as the claim states it, fails on the code: \<open>files\<close> is checked to be a string or an
  array, and the entries of an array are not looked at, so the list \<open>[1]\<close>, which is
  neither a string nor a list of strings, is accepted and reaches the engine; and an
  \<open>undefined\<close> \<open>files\<close> takes the default \<open>'styles.css'\<close>.
\<close>

theorem createTheme_files_not_list_of_strings_accepted:
  "typeof (JArr [JNum 1]) \<noteq> ''string'' \<and> \<not> string_list (JArr [JNum 1]) \<and>
   createTheme (JObj [(''files'', JArr [JNum 1])]) [] =
     (Inr (), [Create (create_target (JNum 1) (JBool True)
                         (default_processors (JBool True) (JBool False)) (JBool False))]) \<and>
   typeof JUndefined \<noteq> ''string'' \<and> \<not> string_list JUndefined \<and>
   createTheme (JObj [(''files'', JUndefined)]) [] =
     (Inr (), [Create (create_target (JStr ''styles.css'') (JBool True)
                         (default_processors (JBool True) (JBool False)) (JBool False))])"
  by (simp add: createTheme_def string_list_def dflt_def Let_def default_processors_def)

text \<open>
  C6 as amended: a call of \<open>createTheme\<close> whose \<open>files\<close> is given (not \<open>undefined\<close>) and is
  neither a string nor an array (a number, a plain object, \<open>null\<close>, a boolean) fails
  with the TypeError of line 57, and the engine has received no call.
\<close>

theorem createTheme_rejects_files:
  assumes "getProp ''files'' options = files"
    and "files \<noteq> JUndefined" and "typeof files \<noteq> ''string''" and "\<not> isArray files"
  shows "createTheme options w = (Inl (TypeError '''files' is not a 'string' or 'array'.''), w)"
proof -
  from assms(1,2) have "options \<noteq> JUndefined" "options \<noteq> JNull" by auto
  with assms show ?thesis
    by (simp add: createTheme_def dflt_def Let_def)
qed

theorem createTheme_rejects_files_witness:
  "createTheme (JObj [(''files'', JNum 7)]) [] =
     (Inl (TypeError '''files' is not a 'string' or 'array'.''), []) \<and>
   createTheme (JObj [(''files'', JNull)]) [] =
     (Inl (TypeError '''files' is not a 'string' or 'array'.''), []) \<and>
   createTheme (JObj [(''files'', JBool True)]) [] =
     (Inl (TypeError '''files' is not a 'string' or 'array'.''), []) \<and>
   createTheme (JObj [(''files'', JObj [])]) [] =
     (Inl (TypeError '''files' is not a 'string' or 'array'.''), [])"
  using createTheme_rejects_files [of "JObj [(''files'', JNum 7)]" "JNum 7" "[]"]
    createTheme_rejects_files [of "JObj [(''files'', JNull)]" "JNull" "[]"]
    createTheme_rejects_files [of "JObj [(''files'', JBool True)]" "JBool True" "[]"]
    createTheme_rejects_files [of "JObj [(''files'', JObj [])]" "JObj []" "[]"]
  by simp

section \<open>createTheme: null processors\<close>

lemma default_processors_isArray: "isArray (default_processors m d)"
  by (simp add: default_processors_def Let_def)

text \<open>
  C10: an options object whose \<open>processors\<close> is \<open>null\<close> is treated as the object that
  differs from it only in leaving \<open>processors\<close> unset (absent, or \<open>undefined\<close>): the same
  outcome and the same engine calls. The default pipeline is built in the place of
  \<open>null\<close>: the cssnext transform (with inline source maps exactly when \<open>map\<close> is true),
  followed, unless \<open>debug\<close> is truthy, by the combination of duplicated selectors and
  cssnano. With \<open>files\<close> a string the engine receives one \<open>create\<close> call carrying that
  pipeline, with \<open>files\<close> an array one such call per entry, and no added call carries
  anything else. The pipeline is an array, so the check of line 75 never raises for a
  \<open>null\<close> \<open>processors\<close>.
\<close>

theorem createTheme_null_processors:
  assumes nl: "map_of kvs ''processors'' = Some JNull"
    and un: "map_of kvs' ''processors'' = None \<or> map_of kvs' ''processors'' = Some JUndefined"
    and same: "\<forall>k. k \<noteq> ''processors'' \<longrightarrow> map_of kvs' k = map_of kvs k"
    and files: "files = dflt (JStr ''styles.css'') (getProp ''files'' (JObj kvs))"
    and mp: "mp = dflt (JBool True) (getProp ''map'' (JObj kvs))"
    and silent: "silent = dflt (JBool False) (getProp ''silent'' (JObj kvs))"
    and debug: "debug = dflt (JBool False) (getProp ''debug'' (JObj kvs))"
    and pipeline: "pipeline =
           JArr (JObj [(''instance'',
                        cssnext (if mp = JBool True then JObj [(''sourceMap'', JStr ''inline'')]
                                 else JObj []))]
                 # (if truthy debug then []
                    else [JObj [(''instance'', combineDup)],
                          JObj [(''instance'', cssnano (JObj [(''autoprefixer'', JBool False)]))]]))"
  shows "createTheme (JObj kvs) w = createTheme (JObj kvs') w \<and>
         fst (createTheme (JObj kvs) w) \<noteq> Inl (TypeError '''processors' is not an 'array'.'') \<and>
         (typeof files = ''string'' \<longrightarrow>
            createTheme (JObj kvs) w =
              (Inr (), w @ [Create (create_target files mp pipeline silent)])) \<and>
         (isArray files \<longrightarrow>
            createTheme (JObj kvs) w =
              (Inr (), w @ map (\<lambda>entry. Create (create_target entry mp pipeline silent))
                             (elements files))) \<and>
         (\<forall>c \<in> set (drop (length w) (snd (createTheme (JObj kvs) w))).
            \<exists>t. c = Create t \<and> getProp ''processors'' t = pipeline)"
proof -
  have sm: "\<And>k. k \<noteq> ''processors'' \<Longrightarrow> getProp k (JObj kvs') = getProp k (JObj kvs)"
    using same by simp
  have p: "getProp ''processors'' (JObj kvs) = JNull" using nl by simp
  have p': "getProp ''processors'' (JObj kvs') = JUndefined" using un by auto
  have dp: "default_processors mp debug = pipeline"
    by (simp add: default_processors_def pipeline)
  have eq: "createTheme (JObj kvs) w = createTheme (JObj kvs') w"
    by (simp add: createTheme_def dflt_def Let_def p p' sm del: getProp.simps)
  have ne: "fst (createTheme (JObj kvs) w) \<noteq> Inl (TypeError '''processors' is not an 'array'.'')"
    by (simp add: createTheme_def dflt_def Let_def p default_processors_isArray
          del: getProp.simps)
  have arr: "isArray pipeline" by (simp add: pipeline)
  have unfolded: "createTheme (JObj kvs) w =
      (if \<not> isArray files \<and> typeof files \<noteq> ''string''
       then (Inl (TypeError '''files' is not a 'string' or 'array'.''), w)
       else if typeof files = ''string''
       then (Inr (), w @ [Create (create_target files mp pipeline silent)])
       else (Inr (), w @ map (\<lambda>entry. Create (create_target entry mp pipeline silent))
                           (elements files)))"
    unfolding createTheme_def Let_def
    by (simp add: p dp [symmetric] files mp silent debug default_processors_isArray
          create_each_calls dflt_def del: getProp.simps)
  have str: "typeof files = ''string'' \<Longrightarrow>
            createTheme (JObj kvs) w =
              (Inr (), w @ [Create (create_target files mp pipeline silent)])"
    by (simp add: unfolded)
  have notboth: "isArray files \<Longrightarrow> typeof files \<noteq> ''string''"
    by (cases files) simp_all
  have lst: "isArray files \<Longrightarrow>
            createTheme (JObj kvs) w =
              (Inr (), w @ map (\<lambda>entry. Create (create_target entry mp pipeline silent))
                             (elements files))"
    using notboth by (simp add: unfolded)
  have every: "\<forall>c \<in> set (drop (length w) (snd (createTheme (JObj kvs) w))).
            \<exists>t. c = Create t \<and> getProp ''processors'' t = pipeline"
    by (auto simp: unfolded processors_of_target)
  from eq ne str lst every show ?thesis by blast
qed

theorem createTheme_null_processors_witness:
  "map_of [(''processors'', JNull), (''files'', JArr [JStr ''a.css'', JStr ''b.css''])]
      ''processors'' = Some JNull \<and>
   map_of [(''files'', JArr [JStr ''a.css'', JStr ''b.css''])] ''processors'' = None \<and>
   isArray (JArr [JStr ''a.css'', JStr ''b.css'']) \<and>
   createTheme (JObj [(''processors'', JNull), (''files'', JArr [JStr ''a.css'', JStr ''b.css''])]) [] =
     createTheme (JObj [(''files'', JArr [JStr ''a.css'', JStr ''b.css''])]) [] \<and>
   createTheme (JObj [(''processors'', JNull), (''files'', JArr [JStr ''a.css'', JStr ''b.css''])]) [] =
     (Inr (),
      [Create (JObj [(''name'', JStr ''a.css''), (''to'', JStr ''a.css''), (''map'', JBool True),
                     (''processors'',
                      JArr [JObj [(''instance'', JFun ''postcss-cssnext''
                                                   (JObj [(''sourceMap'', JStr ''inline'')]))],
                            JObj [(''instance'',
                                   JFun ''postcss-combine-duplicated-selectors'' JUndefined)],
                            JObj [(''instance'',
                                   JFun ''cssnano'' (JObj [(''autoprefixer'', JBool False)]))]]),
                     (''silent'', JBool False)]),
       Create (JObj [(''name'', JStr ''b.css''), (''to'', JStr ''b.css''), (''map'', JBool True),
                     (''processors'',
                      JArr [JObj [(''instance'', JFun ''postcss-cssnext''
                                                   (JObj [(''sourceMap'', JStr ''inline'')]))],
                            JObj [(''instance'',
                                   JFun ''postcss-combine-duplicated-selectors'' JUndefined)],
                            JObj [(''instance'',
                                   JFun ''cssnano'' (JObj [(''autoprefixer'', JBool False)]))]]),
                     (''silent'', JBool False)])]) \<and>
   map_of [(''processors'', JNull), (''debug'', JBool True), (''map'', JBool False)]
      ''processors'' = Some JNull \<and>
   map_of [(''debug'', JBool True), (''map'', JBool False)] ''processors'' = None \<and>
   typeof (JStr ''styles.css'') = ''string'' \<and>
   createTheme (JObj [(''processors'', JNull), (''debug'', JBool True), (''map'', JBool False)]) [] =
     (Inr (),
      [Create (JObj [(''name'', JStr ''styles.css''), (''to'', JStr ''styles.css''),
                     (''map'', JBool False),
                     (''processors'',
                      JArr [JObj [(''instance'', JFun ''postcss-cssnext'' (JObj []))]]),
                     (''silent'', JBool False)])])"
  using createTheme_null_processors
          [where kvs = "[(''processors'', JNull), (''files'', JArr [JStr ''a.css'', JStr ''b.css''])]"
             and kvs' = "[(''files'', JArr [JStr ''a.css'', JStr ''b.css''])]"
             and files = "JArr [JStr ''a.css'', JStr ''b.css'']"
             and mp = "JBool True" and silent = "JBool False" and debug = "JBool False"
             and w = "[]"
             and pipeline =
               "JArr [JObj [(''instance'', cssnext (JObj [(''sourceMap'', JStr ''inline'')]))],
                      JObj [(''instance'', combineDup)],
                      JObj [(''instance'', cssnano (JObj [(''autoprefixer'', JBool False)]))]]"]
        createTheme_null_processors
          [where kvs = "[(''processors'', JNull), (''debug'', JBool True), (''map'', JBool False)]"
             and kvs' = "[(''debug'', JBool True), (''map'', JBool False)]"
             and files = "JStr ''styles.css''"
             and mp = "JBool False" and silent = "JBool False" and debug = "JBool True"
             and w = "[]"
             and pipeline = "JArr [JObj [(''instance'', cssnext (JObj []))]]"]
  by (simp add: createTheme_def dflt_def Let_def default_processors_def create_target_def
        cssnext_def combineDup_def cssnano_def)

section \<open>cssAdd: the first half\<close>

lemma cssAdd_begin_ok:
  assumes a: "action = JUndefined \<or> action = JStr ''append'' \<or> action = JStr ''prepend''"
    and d: "destructure data = Inr r"
    and p1: "es6Template T (rq_filePath r) [] = Inr structuralFilePath"
    and p2: "es6Template T (rq_filePath r) (rq_templateData r) = Inr themeFilePath"
  shows "cssAdd_begin T action data w =
           (Inr \<lparr> sp_action = dflt (JStr ''append'') action, sp_silent = rq_silent r \<rparr>,
            w @ [engine_add (dflt (JStr ''append'') action) (structural_fragment r structuralFilePath),
                 TriggerAsync ''typhonjs:theme:css:get'' (theme_request r themeFilePath)])"
  using a by (auto simp: cssAdd_begin_def d p1 p2 dflt_def Let_def)

lemma sample_destructure: "destructure sample_data = Inr sample_request"
  by (simp add: destructure_def sample_data_def sample_request_def dflt_def)

lemma sample_structural:
  "es6Template sample_lib (rq_filePath sample_request) [] = Inr (JStr ''css/${scheme}.css'')"
  by (simp add: es6Template_def sample_request_def sample_lib_def)

lemma sample_themed:
  "es6Template sample_lib (rq_filePath sample_request) (rq_templateData sample_request)
     = Inr (JStr ''css/dark.css'')"
  by (simp add: es6Template_def sample_request_def sample_lib_def)

lemma sample_silent: "rq_silent sample_request = JBool False"
  by (simp add: sample_request_def)

section \<open>cssAdd: a reply that is a list\<close>

lemma add_inner_calls: "add_inner a es w = w @ map (engine_add a) es"
  by (induction es arbitrary: w) auto

lemma add_entries_calls: "add_entries a xs w = w @ map (engine_add a) (flatten_one_level xs)"
proof (induction xs arbitrary: w)
  case Nil
  show ?case by (simp add: flatten_one_level_def)
next
  case (Cons x xs)
  show ?case
    by (cases x) (simp_all add: Cons flatten_one_level_def add_inner_calls)
qed

text \<open>
  C2: a \<open>cssAdd\<close> call whose request destructures and whose two renderings succeed, and
  whose content lookup is answered by a list, makes, after the structural call and the
  lookup, one engine call per leaf entry of the list flattened by one level, in list
  order. With the action \<open>append\<close> (or unset, which defaults to \<open>append\<close>) every one of
  these calls, like the structural call, is the engine's \<open>append\<close>; with the action
  \<open>prepend\<close> every one is the engine's \<open>prepend\<close>. For the reply \<open>[[A, B], C]\<close>, with \<open>C\<close>
  no list, the calls are for \<open>A\<close>, \<open>B\<close>, \<open>C\<close> in that order.
\<close>

theorem cssAdd_flattens_reply:
  assumes d: "destructure data = Inr r"
    and p1: "es6Template T (rq_filePath r) [] = Inr structuralFilePath"
    and p2: "es6Template T (rq_filePath r) (rq_templateData r) = Inr themeFilePath"
  shows "(action = JUndefined \<or> action = JStr ''append'' \<longrightarrow>
            cssAdd T action data (Inr (JArr xs)) w =
              (Inr (), w @ [Append (structural_fragment r structuralFilePath),
                            TriggerAsync ''typhonjs:theme:css:get'' (theme_request r themeFilePath)]
                         @ map Append (flatten_one_level xs)) \<and>
            (\<not> isArray C \<longrightarrow>
               cssAdd T action data (Inr (JArr [JArr [A, B], C])) w =
                 (Inr (), w @ [Append (structural_fragment r structuralFilePath),
                               TriggerAsync ''typhonjs:theme:css:get''
                                 (theme_request r themeFilePath),
                               Append A, Append B, Append C]))) \<and>
         (action = JStr ''prepend'' \<longrightarrow>
            cssAdd T action data (Inr (JArr xs)) w =
              (Inr (), w @ [Prepend (structural_fragment r structuralFilePath),
                            TriggerAsync ''typhonjs:theme:css:get'' (theme_request r themeFilePath)]
                         @ map Prepend (flatten_one_level xs)) \<and>
            (\<not> isArray C \<longrightarrow>
               cssAdd T action data (Inr (JArr [JArr [A, B], C])) w =
                 (Inr (), w @ [Prepend (structural_fragment r structuralFilePath),
                               TriggerAsync ''typhonjs:theme:css:get''
                                 (theme_request r themeFilePath),
                               Prepend A, Prepend B, Prepend C])))"
proof -
  have flat: "\<not> isArray C \<Longrightarrow> flatten_one_level [JArr [A, B], C] = [A, B, C]"
    by (cases C) (simp_all add: flatten_one_level_def)
  have ap: "engine_add (JStr ''append'') = Append"
    by (rule ext) (simp add: engine_add_def)
  have pr: "engine_add (JStr ''prepend'') = Prepend"
    by (rule ext) (simp add: engine_add_def)
  have gen: "action = JUndefined \<or> action = JStr ''append'' \<or> action = JStr ''prepend'' \<Longrightarrow>
           cssAdd T action data (Inr (JArr ys)) w =
           (Inr (), w @ [engine_add (dflt (JStr ''append'') action)
                           (structural_fragment r structuralFilePath),
                         TriggerAsync ''typhonjs:theme:css:get'' (theme_request r themeFilePath)]
                      @ map (engine_add (dflt (JStr ''append'') action)) (flatten_one_level ys))"
    for ys
    by (simp add: cssAdd_def cssAdd_begin_ok [OF _ d p1 p2] cssAdd_resume_def
          add_entries_calls)
  have a1: "action = JUndefined \<or> action = JStr ''append'' \<Longrightarrow>
            cssAdd T action data (Inr (JArr ys)) w =
              (Inr (), w @ [Append (structural_fragment r structuralFilePath),
                            TriggerAsync ''typhonjs:theme:css:get'' (theme_request r themeFilePath)]
                         @ map Append (flatten_one_level ys))" for ys
    using gen [of ys] by (auto simp: dflt_def ap)
  have a2: "action = JStr ''prepend'' \<Longrightarrow>
            cssAdd T action data (Inr (JArr ys)) w =
              (Inr (), w @ [Prepend (structural_fragment r structuralFilePath),
                            TriggerAsync ''typhonjs:theme:css:get'' (theme_request r themeFilePath)]
                         @ map Prepend (flatten_one_level ys))" for ys
    using gen [of ys] by (auto simp: dflt_def pr)
  from a1 [of xs] a1 [of "[JArr [A, B], C]"] a2 [of xs] a2 [of "[JArr [A, B], C]"] flat
  show ?thesis by simp
qed

theorem cssAdd_flattens_reply_witness:
  "destructure sample_data = Inr sample_request \<and>
   es6Template sample_lib (rq_filePath sample_request) [] = Inr (JStr ''css/${scheme}.css'') \<and>
   es6Template sample_lib (rq_filePath sample_request) (rq_templateData sample_request)
     = Inr (JStr ''css/dark.css'') \<and>
   \<not> isArray (JStr ''C'') \<and>
   cssAdd sample_lib (JStr ''prepend'') sample_data
       (Inr (JArr [JArr [JStr ''A'', JStr ''B''], JStr ''C''])) [] =
     (Inr (), [Prepend (structural_fragment sample_request (JStr ''css/${scheme}.css'')),
               TriggerAsync ''typhonjs:theme:css:get''
                 (theme_request sample_request (JStr ''css/dark.css'')),
               Prepend (JStr ''A''), Prepend (JStr ''B''), Prepend (JStr ''C'')]) \<and>
   cssAdd sample_lib (JStr ''append'') sample_data
       (Inr (JArr [JArr [JStr ''A'', JStr ''B''], JStr ''C''])) [] =
     (Inr (), [Append (structural_fragment sample_request (JStr ''css/${scheme}.css'')),
               TriggerAsync ''typhonjs:theme:css:get''
                 (theme_request sample_request (JStr ''css/dark.css'')),
               Append (JStr ''A''), Append (JStr ''B''), Append (JStr ''C'')]) \<and>
   cssAdd sample_lib JUndefined sample_data
       (Inr (JArr [JArr [JStr ''A'', JArr [JStr ''B'']], JArr [], JStr ''C''])) [] =
     (Inr (), [Append (structural_fragment sample_request (JStr ''css/${scheme}.css'')),
               TriggerAsync ''typhonjs:theme:css:get''
                 (theme_request sample_request (JStr ''css/dark.css'')),
               Append (JStr ''A''), Append (JArr [JStr ''B'']), Append (JStr ''C'')])"
  using cssAdd_flattens_reply
          [where action = "JStr ''prepend''" and data = sample_data and r = sample_request
             and T = sample_lib and structuralFilePath = "JStr ''css/${scheme}.css''"
             and themeFilePath = "JStr ''css/dark.css''"
             and xs = "[]" and w = "[]" and C = "JStr ''C''" and A = "JStr ''A''"
             and B = "JStr ''B''"]
        cssAdd_flattens_reply
          [where action = "JStr ''append''" and data = sample_data and r = sample_request
             and T = sample_lib and structuralFilePath = "JStr ''css/${scheme}.css''"
             and themeFilePath = "JStr ''css/dark.css''"
             and xs = "[]" and w = "[]" and C = "JStr ''C''" and A = "JStr ''A''"
             and B = "JStr ''B''"]
        cssAdd_flattens_reply
          [where action = JUndefined and data = sample_data and r = sample_request
             and T = sample_lib and structuralFilePath = "JStr ''css/${scheme}.css''"
             and themeFilePath = "JStr ''css/dark.css''"
             and xs = "[JArr [JStr ''A'', JArr [JStr ''B'']], JArr [], JStr ''C'']"
             and w = "[]" and C = "JStr ''C''" and A = "JStr ''A''" and B = "JStr ''B''"]
  by (simp add: sample_destructure sample_structural sample_themed flatten_one_level_def)

section \<open>cssAdd: the check of action\<close>

text \<open>
  C4, as the claim states it, fails on the code: the parameter is declared
  \<open>action = 'append'\<close>, so the action value \<open>undefined\<close>, which is neither \<open>"append"\<close> nor
  \<open>"prepend"\<close>, is replaced by \<open>'append'\<close> and the call goes through to the engine and
  the bus.
\<close>

theorem cssAdd_undefined_action_appends:
  "JUndefined \<noteq> JStr ''append'' \<and> JUndefined \<noteq> JStr ''prepend'' \<and>
   cssAdd sample_lib JUndefined sample_data (Inr JUndefined) [] =
     (Inr (), [Append (structural_fragment sample_request (JStr ''css/${scheme}.css'')),
               TriggerAsync ''typhonjs:theme:css:get''
                 (theme_request sample_request (JStr ''css/dark.css''))])"
  by (simp add: cssAdd_def cssAdd_begin_def cssAdd_resume_def sample_destructure
        sample_structural sample_themed dflt_def engine_add_def Let_def)

text \<open>
  C4 as amended: a call of \<open>cssAdd\<close> whose action is given (not \<open>undefined\<close>) and is neither
  \<open>"append"\<close> nor \<open>"prepend"\<close> fails in its first half, before the first \<open>await\<close>, and
  the engine and the bus have received nothing. The error is the TypeError of line 109
  for an action that is no string and the Error of line 110 for any other string; only
  a \<open>null\<close> request is refused even earlier, when the parameters are bound.
\<close>

theorem cssAdd_rejects_action:
  assumes "action \<noteq> JUndefined" and "action \<noteq> JStr ''append''" and "action \<noteq> JStr ''prepend''"
    and "e = (case destructure data of
                Inl e' \<Rightarrow> e'
              | Inr r \<Rightarrow> if typeof action \<noteq> ''string''
                         then TypeError '''action' is not a 'string'.''
                         else Error '''action' is not 'append' or 'prepend'.'')"
  shows "cssAdd_begin T action data w = (Inl e, w) \<and> cssAdd T action data reply w = (Inl e, w)"
  using assms by (auto simp: cssAdd_def cssAdd_begin_def dflt_def Let_def split: sum.splits)

theorem cssAdd_rejects_action_witness:
  "cssAdd_begin sample_lib (JStr ''replace'') sample_data [] =
     (Inl (Error '''action' is not 'append' or 'prepend'.''), []) \<and>
   cssAdd sample_lib (JStr ''replace'') sample_data (Inr (JArr [JStr ''A''])) [] =
     (Inl (Error '''action' is not 'append' or 'prepend'.''), []) \<and>
   cssAdd sample_lib (JNum 1) sample_data (Inr (JArr [JStr ''A''])) [] =
     (Inl (TypeError '''action' is not a 'string'.''), [])"
  using cssAdd_rejects_action
          [where action = "JStr ''replace''" and data = sample_data and T = sample_lib
             and w = "[]" and reply = "Inr (JArr [JStr ''A''])"
             and e = "Error '''action' is not 'append' or 'prepend'.''"]
        cssAdd_rejects_action
          [where action = "JNum 1" and data = sample_data and T = sample_lib
             and w = "[]" and reply = "Inr (JArr [JStr ''A''])"
             and e = "TypeError '''action' is not a 'string'.''"]
  by (simp add: sample_destructure)

section \<open>cssAdd: a reply that is no list\<close>

text \<open>
  C5: a \<open>cssAdd\<close> call that passes its first half and whose content lookup is answered by
  \<open>undefined\<close> completes without error, and the structural call and the lookup are all
  the engine and the bus have received. Answered by a value that is defined and no
  list, it completes without error as well and makes no further engine call; it sends
  the diagnostic \<open>log:error\<close> on the bus when \<open>silent\<close> is false and sends nothing when
  \<open>silent\<close> is true (\<open>!silent\<close>: for a boolean, \<open>truthy\<close> is the boolean itself).
\<close>

theorem cssAdd_reply_no_list:
  assumes a: "action = JUndefined \<or> action = JStr ''append'' \<or> action = JStr ''prepend''"
    and d: "destructure data = Inr r"
    and p1: "es6Template T (rq_filePath r) [] = Inr structuralFilePath"
    and p2: "es6Template T (rq_filePath r) (rq_templateData r) = Inr themeFilePath"
    and act: "act = dflt (JStr ''append'') action"
  shows "cssAdd T action data (Inr JUndefined) w =
           (Inr (), w @ [engine_add act (structural_fragment r structuralFilePath),
                         TriggerAsync ''typhonjs:theme:css:get'' (theme_request r themeFilePath)]) \<and>
         (v \<noteq> JUndefined \<and> \<not> isArray v \<longrightarrow>
          cssAdd T action data (Inr v) w =
           (Inr (), w @ [engine_add act (structural_fragment r structuralFilePath),
                         TriggerAsync ''typhonjs:theme:css:get'' (theme_request r themeFilePath)]
                      @ (if truthy (rq_silent r) then []
                         else [Trigger ''log:error'' (JStr (not_an_array_message (typeof v)))])))"
proof -
  have u: "typeof v = ''undefined'' \<longleftrightarrow> v = JUndefined" by (cases v) simp_all
  show ?thesis
    by (simp add: cssAdd_def cssAdd_begin_ok [OF a d p1 p2] cssAdd_resume_def act u Let_def)
qed

theorem cssAdd_reply_no_list_witness:
  "destructure sample_data = Inr sample_request \<and>
   es6Template sample_lib (rq_filePath sample_request) [] = Inr (JStr ''css/${scheme}.css'') \<and>
   es6Template sample_lib (rq_filePath sample_request) (rq_templateData sample_request)
     = Inr (JStr ''css/dark.css'') \<and>
   cssAdd sample_lib (JStr ''append'') sample_data (Inr JUndefined) [] =
     (Inr (), [Append (structural_fragment sample_request (JStr ''css/${scheme}.css'')),
               TriggerAsync ''typhonjs:theme:css:get''
                 (theme_request sample_request (JStr ''css/dark.css''))]) \<and>
   JObj [] \<noteq> JUndefined \<and> \<not> isArray (JObj []) \<and> \<not> truthy (rq_silent sample_request) \<and>
   cssAdd sample_lib (JStr ''append'') sample_data (Inr (JObj [])) [] =
     (Inr (), [Append (structural_fragment sample_request (JStr ''css/${scheme}.css'')),
               TriggerAsync ''typhonjs:theme:css:get''
                 (theme_request sample_request (JStr ''css/dark.css'')),
               Trigger ''log:error'' (JStr (not_an_array_message ''object''))])"
  using cssAdd_reply_no_list
          [where action = "JStr ''append''" and data = sample_data and r = sample_request
             and T = sample_lib and structuralFilePath = "JStr ''css/${scheme}.css''"
             and themeFilePath = "JStr ''css/dark.css''" and act = "JStr ''append''"
             and w = "[]" and v = "JObj []"]
  by (simp add: sample_destructure sample_structural sample_themed dflt_def engine_add_def
        sample_silent)


section \<open>finalizeTheme\<close>

lemma appended_append: "appended (xs @ ys) = appended xs @ appended ys"
  by (induction xs rule: appended.induct) auto

lemma prepended_append: "prepended (xs @ ys) = prepended xs @ prepended ys"
  by (induction xs rule: prepended.induct) auto

lemma appended_maps: "appended (map Append es) = es" "appended (map Prepend es) = []"
  by (induction es) auto

lemma prepended_maps: "prepended (map Prepend es) = es" "prepended (map Append es) = []"
  by (induction es) auto

lemma append_each_calls: "append_each es w = w @ map Append es"
  by (induction es arbitrary: w) auto

lemma prepend_each_calls: "prepend_each es w = w @ map Prepend es"
  by (induction es arbitrary: w) auto

lemma elements_not_array: "\<not> isArray v \<Longrightarrow> elements v = []"
  by (cases v) auto

lemma forward_bundle_ok:
  assumes "\<not> nullish b"
  shows "forward_bundle b cr w =
           (Inr (cr @ elements (getProp ''copy'' b)), w @ bundle_calls b)"
  using assms
  by (auto simp: forward_bundle_def member_def Let_def append_each_calls prepend_each_calls
        elements_not_array bundle_calls_def)

lemma forward_each_ok:
  assumes "\<forall>b \<in> set bs. \<not> nullish b"
  shows "forward_each bs cr w =
           (Inr (cr @ concat (map (\<lambda>b. elements (getProp ''copy'' b)) bs)),
            w @ concat (map bundle_calls bs))"
  using assms
  by (induction bs arbitrary: cr w) (simp_all add: forward_bundle_ok)

lemma appended_bundles:
  "appended (concat (map bundle_calls bs)) =
     concat (map (\<lambda>b. elements (getProp ''append'' b)) bs)"
  by (induction bs) (simp_all add: appended_append appended_maps bundle_calls_def)

lemma prepended_bundles:
  "prepended (concat (map bundle_calls bs)) =
     concat (map (\<lambda>b. elements (getProp ''prepend'' b)) bs)"
  by (induction bs) (simp_all add: prepended_append prepended_maps bundle_calls_def)

lemma finalize_list:
  assumes o: "options \<noteq> JNull"
    and bs: "\<forall>b \<in> set bs. \<not> nullish b"
    and s: "silent = dflt (JBool False) (getProp ''silent'' (dflt (JObj []) options))"
  shows "finalizeTheme options (Inr (JArr bs)) (Inr css) w =
          (Inr (JObj [(''css'', css),
                      (''copy'', JArr (concat (map (\<lambda>b. elements (getProp ''copy'' b)) bs)))]),
           w @ [TriggerAsync ''typhonjs:theme:resources:get'' JUndefined]
             @ concat (map bundle_calls bs)
             @ [FinalizeAll (JObj [(''silent'', silent)])])"
proof -
  from o have "dflt (JObj []) options \<noteq> JNull" by (simp add: dflt_def)
  then show ?thesis
    by (simp add: finalizeTheme_def Let_def forward_each_ok [OF bs] s)
qed

text \<open>
  C3: when the resources lookup is answered by a list of bundles (entries that are
  neither \<open>undefined\<close> nor \<open>null\<close>) and \<open>finalizeAll\<close> resolves, \<open>finalizeTheme\<close> sends
  the lookup, then bundle by bundle the append entries and the prepend entries in
  order, then \<open>finalizeAll\<close>. Read off the log, the appended entries are the bundles'
  append lists concatenated in bundle order, and likewise the prepended entries; the
  returned \<open>copy\<close> is the bundles' copy lists concatenated in bundle order. For the reply
  \<open>[{append:[a1],copy:[c1]},{append:[a2],copy:[c2]}]\<close> the engine is asked to append \<open>a1\<close>
  then \<open>a2\<close>, and \<open>copy\<close> is \<open>[c1, c2]\<close>.
\<close>

theorem finalizeTheme_bundles:
  assumes o: "options \<noteq> JNull"
    and bs: "\<forall>b \<in> set bs. \<not> nullish b"
    and s: "silent = dflt (JBool False) (getProp ''silent'' (dflt (JObj []) options))"
  shows "finalizeTheme options (Inr (JArr bs)) (Inr css) w =
          (Inr (JObj [(''css'', css),
                      (''copy'', JArr (concat (map (\<lambda>b. elements (getProp ''copy'' b)) bs)))]),
           w @ [TriggerAsync ''typhonjs:theme:resources:get'' JUndefined]
             @ concat (map bundle_calls bs)
             @ [FinalizeAll (JObj [(''silent'', silent)])]) \<and>
         appended (drop (length w) (snd (finalizeTheme options (Inr (JArr bs)) (Inr css) w))) =
           concat (map (\<lambda>b. elements (getProp ''append'' b)) bs) \<and>
         prepended (drop (length w) (snd (finalizeTheme options (Inr (JArr bs)) (Inr css) w))) =
           concat (map (\<lambda>b. elements (getProp ''prepend'' b)) bs) \<and>
         finalizeTheme options
            (Inr (JArr [JObj [(''append'', JArr [a1]), (''copy'', JArr [c1])],
                        JObj [(''append'', JArr [a2]), (''copy'', JArr [c2])]])) (Inr css) w =
          (Inr (JObj [(''css'', css), (''copy'', JArr [c1, c2])]),
           w @ [TriggerAsync ''typhonjs:theme:resources:get'' JUndefined,
                Append a1, Append a2, FinalizeAll (JObj [(''silent'', silent)])])"
proof -
  note gen = finalize_list [OF o bs s, of css w]
  have two: "\<forall>b \<in> set [JObj [(''append'', JArr [a1]), (''copy'', JArr [c1])],
                        JObj [(''append'', JArr [a2]), (''copy'', JArr [c2])]]. \<not> nullish b"
    by (simp add: nullish_def)
  have inst: "finalizeTheme options
            (Inr (JArr [JObj [(''append'', JArr [a1]), (''copy'', JArr [c1])],
                        JObj [(''append'', JArr [a2]), (''copy'', JArr [c2])]])) (Inr css) w =
          (Inr (JObj [(''css'', css), (''copy'', JArr [c1, c2])]),
           w @ [TriggerAsync ''typhonjs:theme:resources:get'' JUndefined,
                Append a1, Append a2, FinalizeAll (JObj [(''silent'', silent)])])"
    by (simp add: finalize_list [OF o two s] bundle_calls_def)
  have ap: "appended (drop (length w) (snd (finalizeTheme options (Inr (JArr bs)) (Inr css) w))) =
           concat (map (\<lambda>b. elements (getProp ''append'' b)) bs)"
    by (simp add: gen appended_append appended_bundles)
  have pr: "prepended (drop (length w) (snd (finalizeTheme options (Inr (JArr bs)) (Inr css) w))) =
           concat (map (\<lambda>b. elements (getProp ''prepend'' b)) bs)"
    by (simp add: gen prepended_append prepended_bundles)
  from gen inst ap pr show ?thesis by blast
qed

theorem finalizeTheme_bundles_witness:
  "JUndefined \<noteq> JNull \<and>
   \<not> nullish (JObj [(''append'', JArr [JStr ''a1'']), (''prepend'', JArr [JStr ''p1'']),
                    (''copy'', JArr [JStr ''c1''])]) \<and>
   \<not> nullish (JObj [(''append'', JArr [JStr ''a2'']), (''copy'', JArr [JStr ''c2''])]) \<and>
   finalizeTheme JUndefined
      (Inr (JArr [JObj [(''append'', JArr [JStr ''a1'']), (''prepend'', JArr [JStr ''p1'']),
                        (''copy'', JArr [JStr ''c1''])],
                  JObj [(''append'', JArr [JStr ''a2'']), (''copy'', JArr [JStr ''c2''])]]))
      (Inr (JArr [JStr ''out''])) [] =
    (Inr (JObj [(''css'', JArr [JStr ''out'']), (''copy'', JArr [JStr ''c1'', JStr ''c2''])]),
     [TriggerAsync ''typhonjs:theme:resources:get'' JUndefined,
      Append (JStr ''a1''), Prepend (JStr ''p1''), Append (JStr ''a2''),
      FinalizeAll (JObj [(''silent'', JBool False)])])"
  using finalizeTheme_bundles
          [where options = JUndefined
             and bs = "[JObj [(''append'', JArr [JStr ''a1'']), (''prepend'', JArr [JStr ''p1'']),
                              (''copy'', JArr [JStr ''c1''])],
                        JObj [(''append'', JArr [JStr ''a2'']), (''copy'', JArr [JStr ''c2''])]]"
             and silent = "JBool False" and css = "JArr [JStr ''out'']" and w = "[]"]
  by (simp add: nullish_def dflt_def bundle_calls_def)

text \<open>
  C9: when the resources lookup is answered by \<open>undefined\<close> and \<open>finalizeAll\<close> resolves,
  \<open>finalizeTheme\<close> completes, the engine has been asked nothing but \<open>finalizeAll\<close>, and
  the returned \<open>copy\<close> is the empty list. Answered by \<open>null\<close>, it throws a TypeError:
  \<open>typeof null\<close> is \<open>'object'\<close>, line 264 reads \<open>themeResources.append\<close>, and
  \<open>finalizeAll\<close> is never called.
\<close>

theorem finalizeTheme_undefined_and_null:
  assumes o: "options \<noteq> JNull"
    and s: "silent = dflt (JBool False) (getProp ''silent'' (dflt (JObj []) options))"
  shows "finalizeTheme options (Inr JUndefined) (Inr css) w =
          (Inr (JObj [(''css'', css), (''copy'', JArr [])]),
           w @ [TriggerAsync ''typhonjs:theme:resources:get'' JUndefined,
                FinalizeAll (JObj [(''silent'', silent)])]) \<and>
         finalizeTheme options (Inr JNull) css0 w =
          (Inl (TypeError ''Cannot read properties of undefined or null''),
           w @ [TriggerAsync ''typhonjs:theme:resources:get'' JUndefined])"
proof -
  from o have "dflt (JObj []) options \<noteq> JNull" by (simp add: dflt_def)
  then show ?thesis
    by (simp add: finalizeTheme_def Let_def s forward_bundle_def member_def nullish_def)
qed

theorem finalizeTheme_undefined_and_null_witness:
  "JObj [(''silent'', JBool True)] \<noteq> JNull \<and>
   finalizeTheme (JObj [(''silent'', JBool True)]) (Inr JUndefined) (Inr (JArr [JStr ''out''])) [] =
     (Inr (JObj [(''css'', JArr [JStr ''out'']), (''copy'', JArr [])]),
      [TriggerAsync ''typhonjs:theme:resources:get'' JUndefined,
       FinalizeAll (JObj [(''silent'', JBool True)])]) \<and>
   finalizeTheme (JObj [(''silent'', JBool True)]) (Inr JNull) (Inr (JArr [JStr ''out''])) [] =
     (Inl (TypeError ''Cannot read properties of undefined or null''),
      [TriggerAsync ''typhonjs:theme:resources:get'' JUndefined])"
  using finalizeTheme_undefined_and_null
          [where options = "JObj [(''silent'', JBool True)]" and silent = "JBool True"
             and css = "JArr [JStr ''out'']" and ?css0.0 = "Inr (JArr [JStr ''out''])" and w = "[]"]
  by (simp add: dflt_def)

section \<open>cssAppendAll: a batch with one failing entry\<close>

lemma add_entries_grows: "prefix w (add_entries a xs w)"
  by (simp add: add_entries_calls)

lemma cssAdd_resume_grows: "prefix w (snd (cssAdd_resume k reply w))"
  by (cases reply) (simp_all add: cssAdd_resume_def Let_def add_entries_grows)

lemma cssAdd_begin_fails:
  assumes "fst (cssAdd_begin T a d w) = Inl e"
  shows "cssAdd_begin T a d w' = (Inl e, w')"
  using assms
  by (auto simp: cssAdd_begin_def Let_def split: sum.splits if_splits)

lemma deliver_grows: "prefix w (snd (deliver i reply b w))"
proof (cases "i < length (promises b)")
  case False
  then show ?thesis by (simp add: deliver_def)
next
  case True
  show ?thesis
  proof (cases "promises b ! i")
    case (Suspended k)
    with True cssAdd_resume_grows [of w k reply] show ?thesis
      by (cases "cssAdd_resume k reply w") (simp add: deliver_def Let_def)
  qed (use True in \<open>simp_all add: deliver_def\<close>)
qed

lemma deliver_settled:
  assumes "settled b = Some x"
  shows "settled (fst (deliver i reply b w)) = Some x"
proof (cases "i < length (promises b)")
  case False
  with assms show ?thesis by (simp add: deliver_def)
next
  case True
  show ?thesis
  proof (cases "promises b ! i")
    case (Suspended k)
    with True assms show ?thesis
      by (cases "cssAdd_resume k reply w") (simp add: deliver_def Let_def)
  qed (use True assms in \<open>simp_all add: deliver_def\<close>)
qed

lemma deliver_all_grows: "prefix w (snd (deliver_all replies b w))"
proof (induction replies arbitrary: b w)
  case Nil
  show ?case by simp
next
  case (Cons ir replies)
  obtain i reply where ir: "ir = (i, reply)" by (cases ir)
  obtain b' w' where step: "deliver i reply b w = (b', w')" by (cases "deliver i reply b w")
  from deliver_grows [of w i reply b] step have "prefix w w'" by simp
  also have "prefix w' (snd (deliver_all replies b' w'))" by (rule Cons)
  finally show ?case by (simp add: ir step)
qed

lemma deliver_all_settled:
  assumes "settled b = Some x"
  shows "settled (fst (deliver_all replies b w)) = Some x"
  using assms
proof (induction replies arbitrary: b w)
  case Nil
  then show ?case by simp
next
  case (Cons ir replies)
  obtain i reply where ir: "ir = (i, reply)" by (cases ir)
  obtain b' w' where step: "deliver i reply b w = (b', w')" by (cases "deliver i reply b w")
  from deliver_settled [OF Cons.prems, of i reply w] step have "settled b' = Some x" by simp
  from Cons.IH [OF this] show ?case by (simp add: ir step)
qed

text \<open>
  C7: in a \<open>cssAppendAll\<close> batch of three requests of which the first and the third pass
  the first half of \<open>cssAdd\<close> and the second fails there, the loop of line 183 still
  makes the structural append call (and the content lookup) for the first and for the
  third entry, and \<open>Promise.all\<close> rejects with the error of the second. Whatever
  replies arrive afterwards, in whatever order, the batch stays rejected with that
  error and the log only grows: nothing that was applied is undone.
\<close>

theorem cssAppendAll_partial_batch:
  assumes d1: "destructure d1 = Inr r1"
    and s1: "es6Template T (rq_filePath r1) [] = Inr s1"
    and t1: "es6Template T (rq_filePath r1) (rq_templateData r1) = Inr t1"
    and d2: "fst (cssAdd_begin T (JStr ''append'') d2 []) = Inl e"
    and d3: "destructure d3 = Inr r3"
    and s3: "es6Template T (rq_filePath r3) [] = Inr s3"
    and t3: "es6Template T (rq_filePath r3) (rq_templateData r3) = Inr t3"
    and b0: "b0 = \<lparr> promises = [Suspended \<lparr> sp_action = JStr ''append'', sp_silent = rq_silent r1 \<rparr>,
                                 Rejected e,
                                 Suspended \<lparr> sp_action = JStr ''append'', sp_silent = rq_silent r3 \<rparr>],
                    settled = Some (Inl e) \<rparr>"
    and w0: "w0 = w @ [Append (structural_fragment r1 s1),
                       TriggerAsync ''typhonjs:theme:css:get'' (theme_request r1 t1),
                       Append (structural_fragment r3 s3),
                       TriggerAsync ''typhonjs:theme:css:get'' (theme_request r3 t3)]"
  shows "cssAppendAll T (JArr [d1, d2, d3]) w = (b0, w0) \<and>
         settled (fst (deliver_all replies b0 w0)) = Some (Inl e) \<and>
         prefix w0 (snd (deliver_all replies b0 w0))"
proof -
  have a: "JStr ''append'' = JUndefined \<or> JStr ''append'' = JStr ''append''
           \<or> JStr ''append'' = JStr ''prepend''" by simp
  note first = cssAdd_begin_ok [OF a d1 s1 t1]
  note second = cssAdd_begin_fails [OF d2]
  note third = cssAdd_begin_ok [OF a d3 s3 t3]
  have run: "cssAppendAll T (JArr [d1, d2, d3]) w = (b0, w0)"
    by (simp add: cssAppendAll_def add_all_begin_def iterate_def dflt_def first second third
          promise_all_def engine_add_def b0 w0)
  have "settled b0 = Some (Inl e)" by (simp add: b0)
  from deliver_all_settled [OF this] deliver_all_grows run show ?thesis by blast
qed

theorem cssAppendAll_partial_batch_witness:
  "destructure sample_data = Inr sample_request \<and>
   es6Template sample_lib (rq_filePath sample_request) [] = Inr (JStr ''css/${scheme}.css'') \<and>
   es6Template sample_lib (rq_filePath sample_request) (rq_templateData sample_request)
     = Inr (JStr ''css/dark.css'') \<and>
   fst (cssAdd_begin sample_lib (JStr ''append'') JNull []) =
     Inl (TypeError ''Cannot destructure null'') \<and>
   cssAppendAll sample_lib (JArr [sample_data, JNull, sample_data]) [] =
     (\<lparr> promises = [Suspended \<lparr> sp_action = JStr ''append'', sp_silent = JBool False \<rparr>,
                     Rejected (TypeError ''Cannot destructure null''),
                     Suspended \<lparr> sp_action = JStr ''append'', sp_silent = JBool False \<rparr>],
        settled = Some (Inl (TypeError ''Cannot destructure null'')) \<rparr>,
      [Append (structural_fragment sample_request (JStr ''css/${scheme}.css'')),
       TriggerAsync ''typhonjs:theme:css:get''
         (theme_request sample_request (JStr ''css/dark.css'')),
       Append (structural_fragment sample_request (JStr ''css/${scheme}.css'')),
       TriggerAsync ''typhonjs:theme:css:get''
         (theme_request sample_request (JStr ''css/dark.css''))]) \<and>
   deliver_all [(2, Inr (JArr [JStr ''A''])), (1, Inr JUndefined), (0, Inr JUndefined)]
     (fst (cssAppendAll sample_lib (JArr [sample_data, JNull, sample_data]) []))
     (snd (cssAppendAll sample_lib (JArr [sample_data, JNull, sample_data]) [])) =
     (\<lparr> promises = [Fulfilled, Rejected (TypeError ''Cannot destructure null''), Fulfilled],
        settled = Some (Inl (TypeError ''Cannot destructure null'')) \<rparr>,
      [Append (structural_fragment sample_request (JStr ''css/${scheme}.css'')),
       TriggerAsync ''typhonjs:theme:css:get''
         (theme_request sample_request (JStr ''css/dark.css'')),
       Append (structural_fragment sample_request (JStr ''css/${scheme}.css'')),
       TriggerAsync ''typhonjs:theme:css:get''
         (theme_request sample_request (JStr ''css/dark.css'')),
       Append (JStr ''A'')])"
proof -
  have second: "fst (cssAdd_begin sample_lib (JStr ''append'') JNull []) =
                  Inl (TypeError ''Cannot destructure null'')"
    by (simp add: cssAdd_begin_def destructure_def dflt_def)
  from second cssAppendAll_partial_batch
          [where ?d1.0 = sample_data and ?r1.0 = sample_request and T = sample_lib
             and ?s1.0 = "JStr ''css/${scheme}.css''" and ?t1.0 = "JStr ''css/dark.css''"
             and ?d2.0 = JNull and e = "TypeError ''Cannot destructure null''"
             and ?d3.0 = sample_data and ?r3.0 = sample_request
             and ?s3.0 = "JStr ''css/${scheme}.css''" and ?t3.0 = "JStr ''css/dark.css''"
             and w = "[]" and replies = "[]"
             and ?b0.0 = "\<lparr> promises = [Suspended \<lparr> sp_action = JStr ''append'', sp_silent = JBool False \<rparr>,
                     Rejected (TypeError ''Cannot destructure null''),
                     Suspended \<lparr> sp_action = JStr ''append'', sp_silent = JBool False \<rparr>],
                settled = Some (Inl (TypeError ''Cannot destructure null'')) \<rparr>"
             and ?w0.0 = "[Append (structural_fragment sample_request (JStr ''css/${scheme}.css'')),
       TriggerAsync ''typhonjs:theme:css:get''
         (theme_request sample_request (JStr ''css/dark.css'')),
       Append (structural_fragment sample_request (JStr ''css/${scheme}.css'')),
       TriggerAsync ''typhonjs:theme:css:get''
         (theme_request sample_request (JStr ''css/dark.css''))]"]
  show ?thesis
    by (simp add: sample_destructure sample_structural sample_themed sample_silent
          deliver_def cssAdd_resume_def engine_add_def Let_def)
qed

end
